theory Spec2Isabelle
  imports Main "HOL-Library.Multiset"
begin

section \<open>JavaScript strings\<close>

text \<open>
  A JavaScript string is a sequence of UTF-16 code units; \<open>length\<close>, \<open>slice\<close>,
  \<open>indexOf\<close> and the regular-expression character classes of the source all count
  code units.  A code unit is modelled as a natural number, so the typographic
  characters that \<open>normalizeJsonText\<close> rewrites (U+2014 and friends) are ordinary
  list elements.  \<open>js\<close> reads an ASCII literal.
\<close>

type_synonym jstring = "nat list"

definition js :: "string \<Rightarrow> jstring" where
  "js s = map of_char s"

text \<open>\<open>String.prototype.startsWith\<close>.\<close>

fun startsWith :: "jstring \<Rightarrow> jstring \<Rightarrow> bool" where
  "startsWith s [] = True"
| "startsWith [] (p # ps) = False"
| "startsWith (c # cs) (p # ps) = (c = p \<and> startsWith cs ps)"

text \<open>\<open>String.prototype.indexOf\<close>: the first position at which the pattern starts;
  \<open>None\<close> stands for the result \<open>-1\<close>.\<close>

fun indexOfFrom :: "jstring \<Rightarrow> jstring \<Rightarrow> nat \<Rightarrow> nat option" where
  "indexOfFrom [] pat i = (if pat = [] then Some i else None)"
| "indexOfFrom (c # cs) pat i =
     (if startsWith (c # cs) pat then Some i else indexOfFrom cs pat (Suc i))"

definition indexOf :: "jstring \<Rightarrow> jstring \<Rightarrow> nat option" where
  "indexOf s pat = indexOfFrom s pat 0"

definition includesStr :: "jstring \<Rightarrow> jstring \<Rightarrow> bool" where
  "includesStr s pat = (indexOf s pat \<noteq> None)"

text \<open>\<open>s.slice(a, b)\<close> and \<open>s.slice(a)\<close> for non-negative indices.\<close>

definition slice :: "jstring \<Rightarrow> nat \<Rightarrow> nat \<Rightarrow> jstring" where
  "slice s a b = take (b - a) (drop a s)"

definition sliceFrom :: "jstring \<Rightarrow> nat \<Rightarrow> jstring" where
  "sliceFrom s a = drop a s"

text \<open>\<open>s.split(sep)\<close> for a one-unit separator and \<open>parts.join(sep)\<close>.\<close>

fun splitOn :: "nat \<Rightarrow> jstring \<Rightarrow> jstring list" where
  "splitOn sep [] = [[]]"
| "splitOn sep (c # cs) =
     (if c = sep then [] # splitOn sep cs
      else (case splitOn sep cs of [] \<Rightarrow> [[c]] | w # ws \<Rightarrow> (c # w) # ws))"

fun joinWith :: "jstring \<Rightarrow> jstring list \<Rightarrow> jstring" where
  "joinWith sep [] = []"
| "joinWith sep [x] = x"
| "joinWith sep (x # y # ys) = x @ sep @ joinWith sep (y # ys)"

text \<open>The white space and line terminators that \<open>trim\<close> and the class \<open>\s\<close> recognise.\<close>

definition isWhitespace :: "nat \<Rightarrow> bool" where
  "isWhitespace c =
     (c = 9 \<or> c = 10 \<or> c = 11 \<or> c = 12 \<or> c = 13 \<or> c = 32 \<or> c = 160 \<or> c = 5760
      \<or> (8192 \<le> c \<and> c \<le> 8202) \<or> c = 8232 \<or> c = 8233 \<or> c = 8239 \<or> c = 8287
      \<or> c = 12288 \<or> c = 65279)"

definition trim :: "jstring \<Rightarrow> jstring" where
  "trim s = rev (dropWhile isWhitespace (rev (dropWhile isWhitespace s)))"

text \<open>\<open>s.replace(/\r\n/g, "\n")\<close> and \<open>s.replace(/\n/g, "\r\n")\<close>.\<close>

fun crlfToLf :: "jstring \<Rightarrow> jstring" where
  "crlfToLf (c # d # cs) =
     (if c = 13 \<and> d = 10 then 10 # crlfToLf cs else c # crlfToLf (d # cs))"
| "crlfToLf cs = cs"

fun lfToCrlf :: "jstring \<Rightarrow> jstring" where
  "lfToCrlf [] = []"
| "lfToCrlf (c # cs) = (if c = 10 then 13 # 10 # lfToCrlf cs else c # lfToCrlf cs)"

definition hasCRLF :: "jstring \<Rightarrow> bool" where
  "hasCRLF s = includesStr s [13, 10]"


section \<open>POSIX paths (\<open>node:path\<close>)\<close>

text \<open>
  The functions of \<open>node:path\<close> that the file-system tool calls, in their POSIX
  form.  A path is split at \<open>/\<close> into its non-empty segments; normalisation runs
  the segments through a stack, where \<open>.\<close> is dropped and \<open>..\<close> pops the last
  real segment (and is kept only when the path is relative and nothing is left to
  pop).  The workspace root held by the tool is absolute (the constructor stores
  \<open>path.resolve(options.root)\<close>), so the working directory of the process is never
  consulted.
\<close>

definition segments :: "jstring \<Rightarrow> jstring list" where
  "segments p = filter (\<lambda>s. s \<noteq> []) (splitOn 47 p)"

definition isAbsolute :: "jstring \<Rightarrow> bool" where
  "isAbsolute p = (case p of [] \<Rightarrow> False | c # _ \<Rightarrow> c = 47)"

definition endsWithSlash :: "jstring \<Rightarrow> bool" where
  "endsWithSlash p = (p \<noteq> [] \<and> last p = 47)"

text \<open>One step of \<open>normalizeString\<close>; the stack is kept with its top first.\<close>

definition normStep :: "bool \<Rightarrow> jstring list \<Rightarrow> jstring \<Rightarrow> jstring list" where
  "normStep allowAboveRoot stack seg =
     (if seg = [46] then stack
      else if seg = [46, 46] then
        (case stack of
           [] \<Rightarrow> (if allowAboveRoot then [[46, 46]] else [])
         | t # rest \<Rightarrow>
             (if t = [46, 46] then (if allowAboveRoot then [46, 46] # stack else stack)
              else rest))
      else seg # stack)"

definition normalizeSegs :: "bool \<Rightarrow> jstring list \<Rightarrow> jstring list" where
  "normalizeSegs allowAboveRoot segs = rev (foldl (normStep allowAboveRoot) [] segs)"

definition pathNormalize :: "jstring \<Rightarrow> jstring" where
  "pathNormalize p =
     (if p = [] then [46]
      else
        (let absolute = isAbsolute p;
             trailing = endsWithSlash p;
             body = joinWith [47] (normalizeSegs (\<not> absolute) (segments p))
         in if body = [] then (if absolute then [47] else if trailing then [46, 47] else [46])
            else (if absolute then [47] else []) @ body @ (if trailing then [47] else [])))"

definition pathJoin :: "jstring \<Rightarrow> jstring \<Rightarrow> jstring" where
  "pathJoin a b =
     (let parts = filter (\<lambda>s. s \<noteq> []) [a, b]
      in if parts = [] then [46] else pathNormalize (joinWith [47] parts))"

text \<open>The segments of \<open>path.resolve(p)\<close> for an absolute \<open>p\<close>.\<close>

definition absSegs :: "jstring \<Rightarrow> jstring list" where
  "absSegs p = normalizeSegs False (segments p)"

text \<open>\<open>path.resolve(base, p)\<close> for an absolute \<open>base\<close>.\<close>

definition pathResolve :: "jstring \<Rightarrow> jstring \<Rightarrow> jstring" where
  "pathResolve base p =
     47 # joinWith [47] (if isAbsolute p then absSegs p else absSegs (base @ [47] @ p))"

fun commonPrefixLen :: "'a list \<Rightarrow> 'a list \<Rightarrow> nat" where
  "commonPrefixLen (x # xs) (y # ys) = (if x = y then Suc (commonPrefixLen xs ys) else 0)"
| "commonPrefixLen xs ys = 0"

text \<open>\<open>path.relative(from, to)\<close>: one \<open>..\<close> for every segment of \<open>from\<close> beyond the
  common prefix, then the rest of \<open>to\<close>.\<close>

definition pathRelative :: "jstring \<Rightarrow> jstring \<Rightarrow> jstring" where
  "pathRelative from to =
     (if from = to then []
      else
        (let f = absSegs from; t = absSegs to; k = commonPrefixLen f t
         in joinWith [47] (replicate (length f - k) [46, 46] @ drop k t)))"





section \<open>The file-system tool (\<open>src/tools/filesystem.ts\<close>)\<close>

datatype MutationAction = Write | Delete

record PendingMutation =
  action :: MutationAction
  path :: jstring
  preview :: "jstring option"
  before :: "jstring option"
  after :: "jstring option"

record FileMutation = PendingMutation +
  applied :: bool
  reason :: "jstring option"

text \<open>Every kind of error the modelled code raises.\<close>

datatype error =
    PathEscape jstring
  | ReadFailed jstring
  | IOFailure jstring
  | ActionMissingPath
  | WriteMissingContent
  | AnchorMissing
  | ReplacementMissing
  | SnippetMissing
  | AnchorNotFound jstring
  | UnknownMode
  | PostconditionUnmet jstring
  | MissingFile jstring
  | PatchFailed jstring
  | MissingInstructions
  | UnsupportedType
  | InvalidJson nat
  | MissingActions
  | TypeError

record FileSystemTool =
  root :: jstring
  dryRun :: bool
  confirm :: "(PendingMutation \<Rightarrow> bool) option"

text \<open>
  The disk: the text files, keyed by the segments of their absolute path, and the
  paths at which the operating system refuses a modification (a write or a removal
  there raises).  Directories are implicit: \<open>mkdir -p\<close> changes nothing.
\<close>

type_synonym fkey = "jstring list"

record filesystem =
  files :: "fkey \<rightharpoonup> jstring"
  denied :: "fkey \<Rightarrow> bool"

definition fileKey :: "jstring \<Rightarrow> fkey" where
  "fileKey p = absSegs p"

text \<open>\<open>{ ...pending, applied, reason }\<close>.\<close>

definition outcome :: "PendingMutation \<Rightarrow> bool \<Rightarrow> jstring option \<Rightarrow> FileMutation" where
  "outcome p a r =
     \<lparr>action = action p, path = path p, preview = preview p, before = before p,
      after = after p, applied = a, reason = r\<rparr>"

definition resolveTarget :: "FileSystemTool \<Rightarrow> jstring \<Rightarrow> jstring" where
  "resolveTarget tool targetPath =
     pathNormalize
       (if isAbsolute targetPath then targetPath else pathJoin (root tool) targetPath)"

definition resolve :: "FileSystemTool \<Rightarrow> jstring \<Rightarrow> error + jstring" where
  "resolve tool targetPath =
     (let normalized = resolveTarget tool targetPath;
          relative = pathRelative (root tool) normalized
      in if startsWith relative [46, 46] \<or> isAbsolute relative
         then Inl (PathEscape targetPath)
         else Inr normalized)"

definition read :: "FileSystemTool \<Rightarrow> jstring \<Rightarrow> filesystem \<Rightarrow> error + jstring" where
  "read tool targetPath fs =
     (case resolve tool targetPath of
        Inl e \<Rightarrow> Inl e
      | Inr resolved \<Rightarrow>
          (case files fs (fileKey resolved) of
             None \<Rightarrow> Inl (ReadFailed targetPath)
           | Some text \<Rightarrow> Inr text))"

definition declined :: "FileSystemTool \<Rightarrow> PendingMutation \<Rightarrow> bool" where
  "declined tool pending = (case confirm tool of None \<Rightarrow> False | Some ask \<Rightarrow> \<not> ask pending)"

text \<open>\<open>FileSystemTool.write\<close> (\<open>write\<close> is a reserved word of the theory language).\<close>

definition write_fs ::
  "FileSystemTool \<Rightarrow> jstring \<Rightarrow> jstring \<Rightarrow> filesystem \<Rightarrow> (error + FileMutation) \<times> filesystem"
where
  "write_fs tool targetPath content fs =
     (case resolve tool targetPath of
        Inl e \<Rightarrow> (Inl e, fs)
      | Inr resolved \<Rightarrow>
          (let previousContent = files fs (fileKey resolved);
               pending = \<lparr>action = Write, path = pathRelative (root tool) resolved,
                          preview = Some (slice content 0 500), before = previousContent,
                          after = Some content\<rparr>
           in if dryRun tool then (Inr (outcome pending False (Some (js ''dry-run''))), fs)
              else if declined tool pending
                then (Inr (outcome pending False (Some (js ''declined''))), fs)
              else if denied fs (fileKey resolved) then (Inl (IOFailure targetPath), fs)
              else (Inr (outcome pending True None),
                    fs\<lparr>files := (files fs)(fileKey resolved \<mapsto> content)\<rparr>)))"

text \<open>\<open>fs.rm(resolved, {recursive: true, force: true})\<close>: the file and everything
  below the path go; a path that does not exist is not an error.\<close>

definition removeTree :: "fkey \<Rightarrow> (fkey \<rightharpoonup> jstring) \<Rightarrow> (fkey \<rightharpoonup> jstring)" where
  "removeTree k m = (\<lambda>q. if take (length k) q = k then None else m q)"

definition delete ::
  "FileSystemTool \<Rightarrow> jstring \<Rightarrow> filesystem \<Rightarrow> (error + FileMutation) \<times> filesystem"
where
  "delete tool targetPath fs =
     (case resolve tool targetPath of
        Inl e \<Rightarrow> (Inl e, fs)
      | Inr resolved \<Rightarrow>
          (let existingContent = files fs (fileKey resolved);
               pending = \<lparr>action = Delete, path = pathRelative (root tool) resolved,
                          preview = None, before = existingContent, after = None\<rparr>
           in if dryRun tool then (Inr (outcome pending False (Some (js ''dry-run''))), fs)
              else if declined tool pending
                then (Inr (outcome pending False (Some (js ''declined''))), fs)
              else if denied fs (fileKey resolved) then (Inl (IOFailure targetPath), fs)
              else (Inr (outcome pending True None),
                    fs\<lparr>files := removeTree (fileKey resolved) (files fs)\<rparr>)))"

text \<open>A target lies inside the workspace when the segments of the root are a prefix
  of the segments of the normalised target.\<close>

definition insideRoot :: "jstring \<Rightarrow> jstring \<Rightarrow> bool" where
  "insideRoot rootPath p =
     (take (length (absSegs rootPath)) (absSegs p) = absSegs rootPath)"


section \<open>Rollback (\<open>rollbackMutations\<close> in \<open>src/ui/App.tsx\<close>)\<close>

text \<open>
  \<open>Map.prototype.set\<close>: a new key is appended; an existing key keeps its place in
  the iteration order and only its value is replaced.
\<close>

fun mapSet :: "('k \<times> 'v) list \<Rightarrow> 'k \<Rightarrow> 'v \<Rightarrow> ('k \<times> 'v) list" where
  "mapSet [] k v = [(k, v)]"
| "mapSet ((k', v') # rest) k v =
     (if k' = k then (k, v) # rest else (k', v') # mapSet rest k v)"

definition latestByPath :: "FileMutation list \<Rightarrow> (jstring \<times> FileMutation) list" where
  "latestByPath mutations = foldl (\<lambda>m mutation. mapSet m (path mutation) mutation) [] mutations"

text \<open>\<open>Array.from(latestByPath.values()).reverse()\<close>.\<close>

definition ordered :: "FileMutation list \<Rightarrow> FileMutation list" where
  "ordered mutations = rev (map snd (latestByPath mutations))"

definition rollbackTarget :: "jstring \<Rightarrow> FileMutation \<Rightarrow> fkey" where
  "rollbackTarget workspaceRoot mutation = fileKey (pathResolve workspaceRoot (path mutation))"

text \<open>The body of the \<open>try\<close> block for one mutation; \<open>None\<close> when a file-system call
  raises.  \<open>fs.rm(target, {force: true})\<close> removes the one file.\<close>

definition rollbackBody :: "fkey \<Rightarrow> FileMutation \<Rightarrow> filesystem \<Rightarrow> filesystem option" where
  "rollbackBody target mutation fs =
     (if action mutation = Write then
        (case before mutation of
           Some b \<Rightarrow>
             (if denied fs target then None
              else Some (fs\<lparr>files := (files fs)(target \<mapsto> b)\<rparr>))
         | None \<Rightarrow>
             (if denied fs target then None
              else Some (fs\<lparr>files := (files fs)(target := None)\<rparr>)))
      else
        (case before mutation of
           Some b \<Rightarrow>
             (if denied fs target then None
              else Some (fs\<lparr>files := (files fs)(target \<mapsto> b)\<rparr>))
         | None \<Rightarrow> Some fs))"

text \<open>One iteration of the loop: the \<open>catch\<close> logs the path and the loop goes on.
  The state is the disk and the paths logged so far.\<close>

definition rollbackOne ::
  "jstring \<Rightarrow> filesystem \<times> jstring list \<Rightarrow> FileMutation \<Rightarrow> filesystem \<times> jstring list"
where
  "rollbackOne workspaceRoot st mutation =
     (case rollbackBody (rollbackTarget workspaceRoot mutation) mutation (fst st) of
        Some fs' \<Rightarrow> (fs', snd st)
      | None \<Rightarrow> (fst st, snd st @ [path mutation]))"

definition replay ::
  "jstring \<Rightarrow> FileMutation list \<Rightarrow> filesystem \<Rightarrow> filesystem \<times> jstring list"
where
  "replay workspaceRoot ms fs = foldl (rollbackOne workspaceRoot) (fs, []) ms"

definition rollbackMutations ::
  "jstring \<Rightarrow> FileMutation list \<Rightarrow> filesystem \<Rightarrow> filesystem \<times> jstring list"
where
  "rollbackMutations workspaceRoot mutations fs = replay workspaceRoot (ordered mutations) fs"






section \<open>Anchors (\<open>src/agents/implementer-agent.ts\<close>)\<close>

text \<open>
  \<open>RegExp\<close> is the engine of the JavaScript runtime and is taken as a parameter:
  given a pattern, the flags and the subject it reports that the pattern does not
  compile, that it finds nothing, or the index and length of the first match.
\<close>

datatype rxResult = RxInvalid | RxNoMatch | RxMatch nat nat

type_synonym regexEngine = "jstring \<Rightarrow> jstring \<Rightarrow> jstring \<Rightarrow> rxResult"

text \<open>\<open>match && match[0]\<close>: a match counts when it is not empty.\<close>

definition rxSpan :: "regexEngine \<Rightarrow> jstring \<Rightarrow> jstring \<Rightarrow> jstring \<Rightarrow> (nat \<times> nat) option" where
  "rxSpan rx pattern flags content =
     (case rx pattern flags content of
        RxMatch i n \<Rightarrow> (if n = 0 then None else Some (i, i + n))
      | RxNoMatch \<Rightarrow> None
      | RxInvalid \<Rightarrow> None)"

record AnchorSpec =
  exact :: "jstring option"
  regex :: "jstring option"
  description :: "jstring option"

text \<open>Truthiness of an optional string: present and not empty.\<close>

definition truthy :: "jstring option \<Rightarrow> bool" where
  "truthy s = (case s of None \<Rightarrow> False | Some t \<Rightarrow> t \<noteq> [])"

text \<open>The class of \<open>escapeForRegex\<close>: hyphen, slash, backslash, caret, dollar, star,
  plus, question mark, dot, parentheses, bar, brackets and braces.\<close>

definition regexMeta :: "nat \<Rightarrow> bool" where
  "regexMeta c =
     (c \<in> set [45, 47, 92, 94, 36, 42, 43, 63, 46, 40, 41, 124, 91, 93, 123, 125])"

fun escapeForRegex :: "jstring \<Rightarrow> jstring" where
  "escapeForRegex [] = []"
| "escapeForRegex (c # cs) =
     (if regexMeta c then 92 # c # escapeForRegex cs else c # escapeForRegex cs)"

text \<open>Every run of white space becomes the three characters backslash, \<open>s\<close>, \<open>+\<close>.\<close>

function collapseWhitespace :: "jstring \<Rightarrow> jstring" where
  "collapseWhitespace [] = []"
| "collapseWhitespace (c # cs) =
     (if isWhitespace c then [92, 115, 43] @ collapseWhitespace (dropWhile isWhitespace cs)
      else c # collapseWhitespace cs)"
  by pat_completeness auto
termination
  by (relation "measure length") (auto simp: length_dropWhile_le less_Suc_eq_le)

definition buildLooseRegex :: "jstring \<Rightarrow> jstring option" where
  "buildLooseRegex snippet =
     (let trimmed = trim snippet
      in if trimmed = [] then None else Some (collapseWhitespace (escapeForRegex trimmed)))"

definition locateAnchor :: "regexEngine \<Rightarrow> jstring \<Rightarrow> AnchorSpec \<Rightarrow> (nat \<times> nat) option" where
  "locateAnchor rx content anchor =
     (case (if truthy (regex anchor) then rxSpan rx (the (regex anchor)) (js ''m'') content
            else None) of
        Some span \<Rightarrow> Some span
      | None \<Rightarrow>
          (if truthy (exact anchor) then
             (let e = the (exact anchor) in
              case indexOf content e of
                Some index \<Rightarrow> Some (index, index + length e)
              | None \<Rightarrow>
                  (let trimmed = trim e in
                   case (if trimmed \<noteq> [] \<and> trimmed \<noteq> e then indexOf content trimmed else None) of
                     Some index \<Rightarrow> Some (index, index + length trimmed)
                   | None \<Rightarrow>
                       (case buildLooseRegex e of
                          None \<Rightarrow> None
                        | Some pattern \<Rightarrow> rxSpan rx pattern (js ''mi'') content)))
           else None))"

text \<open>The positions at which a text occurs verbatim in the content.\<close>

definition occursAt :: "jstring \<Rightarrow> jstring \<Rightarrow> nat \<Rightarrow> bool" where
  "occursAt content e i = startsWith (drop i content) e"

definition occurrences :: "jstring \<Rightarrow> jstring \<Rightarrow> nat list" where
  "occurrences content e = filter (occursAt content e) [0 ..< Suc (length content)]"

text \<open>The four matchers of \<open>locateAnchor\<close>, each with the guard under which the
  source tries it, and an anchor that none of them finds in the content.\<close>

definition foundByRegex :: "regexEngine \<Rightarrow> jstring \<Rightarrow> AnchorSpec \<Rightarrow> bool" where
  "foundByRegex rx text anc =
     (truthy (regex anc) \<and> rxSpan rx (the (regex anc)) (js ''m'') text \<noteq> None)"






section \<open>Actions\<close>

datatype ActionType = write_file | modify_file | delete_path | other_type

datatype EditMode = replace | insert_after | insert_before | other_mode

text \<open>
  An action as parsed from the payload.  \<open>apath\<close> is the field \<open>path\<close>; the empty
  string also stands for a missing path, both being rejected by the same test
  \<open>!action.path\<close> before any use.
\<close>

record ImplementationAction =
  atype :: ActionType
  apath :: jstring
  content :: "jstring option"
  patch :: "jstring option"
  patches :: "jstring list option"
  mode :: "EditMode option"
  anchor :: "AnchorSpec option"
  replacement :: "jstring option"
  snippet :: "jstring option"
  ensure :: "jstring option"

text \<open>\<open>action.mode ?? (action.replacement ? "replace" : "insert_after")\<close>.\<close>

definition effectiveMode :: "ImplementationAction \<Rightarrow> EditMode" where
  "effectiveMode a =
     (case mode a of
        Some m \<Rightarrow> m
      | None \<Rightarrow> (if truthy (replacement a) then replace else insert_after))"

definition orEmpty :: "jstring option \<Rightarrow> jstring" where
  "orEmpty s = (case s of None \<Rightarrow> [] | Some t \<Rightarrow> t)"

text \<open>The splice of \<open>applyAnchoredModification\<close> (the assignment of \<open>updated\<close>).\<close>

definition spliceEdit ::
  "EditMode \<Rightarrow> jstring \<Rightarrow> nat \<times> nat \<Rightarrow> ImplementationAction \<Rightarrow> error + jstring"
where
  "spliceEdit m original match a =
     (case m of
        replace \<Rightarrow>
          Inr (slice original 0 (fst match) @ orEmpty (replacement a) @ sliceFrom original (snd match))
      | insert_after \<Rightarrow>
          Inr (slice original 0 (snd match) @ orEmpty (snippet a) @ sliceFrom original (snd match))
      | insert_before \<Rightarrow>
          Inr (slice original 0 (fst match) @ orEmpty (snippet a) @ sliceFrom original (fst match))
      | other_mode \<Rightarrow> Inl UnknownMode)"

definition applyAnchoredModification ::
  "FileSystemTool \<Rightarrow> regexEngine \<Rightarrow> ImplementationAction \<Rightarrow> filesystem
     \<Rightarrow> (error + FileMutation) \<times> filesystem"
where
  "applyAnchoredModification fsTool rx a fs =
     (case anchor a of
        None \<Rightarrow> (Inl AnchorMissing, fs)
      | Some anc \<Rightarrow>
          (let m = effectiveMode a in
           if m = replace \<and> replacement a = None then (Inl ReplacementMissing, fs)
           else if m \<noteq> replace \<and> snippet a = None then (Inl SnippetMissing, fs)
           else
             (case read fsTool (apath a) fs of
                Inl e \<Rightarrow> (Inl e, fs)
              | Inr originalRaw \<Rightarrow>
                  (let hadCRLF = hasCRLF originalRaw;
                       original = (if hadCRLF then crlfToLf originalRaw else originalRaw)
                   in case locateAnchor rx original anc of
                        None \<Rightarrow> (Inl (AnchorNotFound (apath a)), fs)
                      | Some match \<Rightarrow>
                          (case spliceEdit m original match a of
                             Inl e \<Rightarrow> (Inl e, fs)
                           | Inr updated \<Rightarrow>
                               (if truthy (ensure a) \<and> \<not> includesStr updated (the (ensure a))
                                then (Inl (PostconditionUnmet (apath a)), fs)
                                else write_fs fsTool (apath a)
                                       (if hadCRLF then lfToCrlf updated else updated) fs))))))"




definition hasAnchorContent :: "ImplementationAction \<Rightarrow> bool" where
  "hasAnchorContent a = (snippet a \<noteq> None \<or> replacement a \<noteq> None)"

text \<open>\<open>typeof action.patch === "string" && action.patch.trim()\<close>.\<close>

definition hasPatch :: "ImplementationAction \<Rightarrow> bool" where
  "hasPatch a = (case patch a of None \<Rightarrow> False | Some p \<Rightarrow> trim p \<noteq> [])"




datatype AgentStatus = Success | Failure | Skipped

record AgentResult =
  status :: AgentStatus
  summary :: "error option"
  mutations :: "FileMutation list option"


text \<open>
  A regular-expression engine for the concrete instances: on a pattern without
  metacharacters and a subject without letters of the other case, \<open>RegExp\<close> finds
  the first verbatim occurrence of the pattern, as this engine does.
\<close>

definition literalEngine :: regexEngine where
  "literalEngine pattern flags subject =
     (case indexOf subject pattern of None \<Rightarrow> RxNoMatch | Some i \<Rightarrow> RxMatch i (length pattern))"

section \<open>Manual hunk splicing\<close>

text \<open>A hunk as \<open>parsePatch\<close> of the \<open>diff\<close> package returns it: the declared
  first line of the old text and the lines of the hunk, each with its marker.\<close>

record Hunk =
  oldStart :: int
  lines :: "jstring list"

text \<open>\<open>hunk.lines.filter(line => line.startsWith(m) || ...).map(line => line.slice(1))\<close>.\<close>

definition marked :: "nat list \<Rightarrow> jstring list \<Rightarrow> jstring list" where
  "marked marks ls =
     map (\<lambda>l. sliceFrom l 1) (filter (\<lambda>l. \<exists>m \<in> set marks. startsWith l [m]) ls)"

definition targetLines :: "Hunk \<Rightarrow> jstring list" where
  "targetLines hunk = marked [32, 45] (lines hunk)"

definition replacementLines :: "Hunk \<Rightarrow> jstring list" where
  "replacementLines hunk = marked [32, 43] (lines hunk)"

definition removedLines :: "Hunk \<Rightarrow> jstring list" where
  "removedLines hunk = marked [45] (lines hunk)"

definition contextLines :: "Hunk \<Rightarrow> jstring list" where
  "contextLines hunk = marked [32] (lines hunk)"

text \<open>\<open>Math.max(0, Math.min(haystack.length, oldStart - 1 + offset))\<close>.\<close>

definition positional :: "jstring list \<Rightarrow> int \<Rightarrow> int \<Rightarrow> int" where
  "positional haystack start offset = max 0 (min (int (length haystack)) (start - 1 + offset))"

definition norm :: "bool \<Rightarrow> jstring \<Rightarrow> jstring" where
  "norm useTrimmed l = (if useTrimmed then trim l else l)"

text \<open>The loop of \<open>matchesAt\<close>, on the haystack from \<open>index\<close> on.\<close>

fun linesEqual :: "bool \<Rightarrow> jstring list \<Rightarrow> jstring list \<Rightarrow> bool" where
  "linesEqual useTrimmed hs [] = True"
| "linesEqual useTrimmed [] (n # ns) = False"
| "linesEqual useTrimmed (h # hs) (n # ns) =
     (if norm useTrimmed h \<noteq> norm useTrimmed n then False else linesEqual useTrimmed hs ns)"

definition matchesAt :: "jstring list \<Rightarrow> jstring list \<Rightarrow> int \<Rightarrow> bool \<Rightarrow> bool" where
  "matchesAt haystack needle index useTrimmed =
     (if index < 0 \<or> index + int (length needle) > int (length haystack) then False
      else linesEqual useTrimmed (drop (nat index) haystack) needle)"

text \<open>The loop of \<open>matchesPartial\<close>: the needle that is still to match and the
  haystack from \<open>j\<close> on.\<close>

fun partialFrom :: "bool \<Rightarrow> jstring list \<Rightarrow> jstring list \<Rightarrow> bool" where
  "partialFrom useTrimmed [] hs = True"
| "partialFrom useTrimmed (n # ns) [] = False"
| "partialFrom useTrimmed (n # ns) (h # hs) =
     (if norm useTrimmed h = norm useTrimmed n then partialFrom useTrimmed ns hs
      else partialFrom useTrimmed (n # ns) hs)"

definition matchesPartial :: "jstring list \<Rightarrow> jstring list \<Rightarrow> int \<Rightarrow> bool \<Rightarrow> bool" where
  "matchesPartial haystack needle index useTrimmed =
     (if needle = [] then False
      else if index < 0 \<or> index \<ge> int (length haystack) then False
      else partialFrom useTrimmed needle (drop (nat index) haystack))"

text \<open>The loop that collects the candidate indices, nearest to \<open>approx\<close> first.\<close>

function candidatesFrom :: "int \<Rightarrow> nat \<Rightarrow> nat \<Rightarrow> int list \<Rightarrow> int list" where
  "candidatesFrom approx len delta acc =
     (if delta > len then acc
      else
        (let forward = approx + int delta;
             backward = approx - int delta;
             acc1 = (if forward < int len then acc @ [forward] else acc);
             acc2 = (if delta \<noteq> 0 \<and> backward \<ge> 0 then acc1 @ [backward] else acc1)
         in if length acc2 > len then acc2 else candidatesFrom approx len (Suc delta) acc2))"
  by pat_completeness auto
termination
  by (relation "measure (\<lambda>(approx, len, delta, acc). Suc len - delta)") auto

declare candidatesFrom.simps [simp del]

definition candidates :: "jstring list \<Rightarrow> int \<Rightarrow> int \<Rightarrow> int list" where
  "candidates haystack start offset =
     candidatesFrom (positional haystack start offset) (length haystack) 0 []"

definition removedSequence :: "jstring list \<Rightarrow> jstring list" where
  "removedSequence removed = filter (\<lambda>line. length (trim line) > 0) removed"

definition contextSequence :: "jstring list \<Rightarrow> jstring list" where
  "contextSequence ctx = take (min (length ctx) 3) ctx"

definition findBestSequenceIndex ::
  "jstring list \<Rightarrow> jstring list \<Rightarrow> jstring list \<Rightarrow> jstring list \<Rightarrow> int \<Rightarrow> int \<Rightarrow> int"
where
  "findBestSequenceIndex haystack needle removed ctx start offset =
     (if needle = [] then positional haystack start offset
      else
        (let cs = candidates haystack start offset in
         case find (\<lambda>c. matchesAt haystack needle c False) cs of
           Some c \<Rightarrow> c
         | None \<Rightarrow>
        (case find (\<lambda>c. matchesAt haystack needle c True) cs of
           Some c \<Rightarrow> c
         | None \<Rightarrow>
        (case (if removed \<noteq> [] \<and> removedSequence removed \<noteq> []
               then find (\<lambda>c. matchesPartial haystack (removedSequence removed) c True) cs
               else None) of
           Some c \<Rightarrow> c
         | None \<Rightarrow>
        (case (if ctx \<noteq> [] \<and> contextSequence ctx \<noteq> []
               then find (\<lambda>c. matchesPartial haystack (contextSequence ctx) c True) cs
               else None) of
           Some c \<Rightarrow> c
         | None \<Rightarrow> - 1)))))"

text \<open>\<open>working.splice(index, deleteCount, ...items)\<close> for \<open>0 \<le> index\<close>.\<close>

definition splice :: "'a list \<Rightarrow> nat \<Rightarrow> nat \<Rightarrow> 'a list \<Rightarrow> 'a list" where
  "splice xs index deleteCount items = take index xs @ items @ drop (index + deleteCount) xs"

text \<open>The body of the loop over the hunks of one patch; the state is the working
  lines and the running offset.\<close>

definition applyHunk :: "jstring list \<times> int \<Rightarrow> Hunk \<Rightarrow> jstring list \<times> int" where
  "applyHunk st hunk =
     (let working = fst st;
          offset = snd st;
          found =
            (if length (targetLines hunk) > 0
             then findBestSequenceIndex working (targetLines hunk) (removedLines hunk)
                    (contextLines hunk) (oldStart hunk) offset
             else positional working (oldStart hunk) offset);
          index = (if found = - 1 then positional working (oldStart hunk) offset else found)
      in (splice working (nat index) (length (targetLines hunk)) (replacementLines hunk),
          offset + int (length (replacementLines hunk)) - int (length (targetLines hunk))))"

text \<open>A parsed patch is the list of its hunks; the offset starts at 0 for every
  patch, the working lines go from patch to patch.\<close>

definition applyPatchManually :: "jstring \<Rightarrow> Hunk list list \<Rightarrow> jstring option" where
  "applyPatchManually original parsed =
     (if parsed = [] then None
      else Some (joinWith [10]
                  (foldl (\<lambda>working hunks. fst (foldl applyHunk (working, 0) hunks))
                         (splitOn 10 original) parsed)))"


section \<open>JSON values and \<open>JSON.parse\<close>\<close>

text \<open>
  A parsed JSON value.  A number keeps its text; an object is the list of its keys
  in insertion order, a repeated key replacing the value at its first place, as
  \<open>JSON.parse\<close> builds it.
\<close>

datatype json =
    JNull
  | JBool bool
  | JNumber jstring
  | JString jstring
  | JArray "json list"
  | JObject "(jstring \<times> json) list"



text \<open>
  For the concrete instances, a parser of the JSON grammar (ECMA-404), with which
  \<open>JSON.parse\<close> agrees on the texts used below.  The recursion runs on fuel,
  twice the length of the text and two more; every instance below is a text on
  which the parser returns a value, so none of them rests on the fuel running out.
\<close>

definition jsonWs :: "nat \<Rightarrow> bool" where
  "jsonWs c = (c = 32 \<or> c = 9 \<or> c = 10 \<or> c = 13)"

definition skipWs :: "jstring \<Rightarrow> jstring" where
  "skipWs s = dropWhile jsonWs s"

definition isDigit :: "nat \<Rightarrow> bool" where
  "isDigit c = (48 \<le> c \<and> c \<le> 57)"

definition hexValue :: "nat \<Rightarrow> nat option" where
  "hexValue c =
     (if 48 \<le> c \<and> c \<le> 57 then Some (c - 48)
      else if 97 \<le> c \<and> c \<le> 102 then Some (c - 87)
      else if 65 \<le> c \<and> c \<le> 70 then Some (c - 55)
      else None)"

definition hex4 :: "nat \<Rightarrow> nat \<Rightarrow> nat \<Rightarrow> nat \<Rightarrow> nat option" where
  "hex4 a b c d =
     (case (hexValue a, hexValue b, hexValue c, hexValue d) of
        (Some w, Some x, Some y, Some z) \<Rightarrow> Some (4096 * w + 256 * x + 16 * y + z)
      | _ \<Rightarrow> None)"

text \<open>The escape after a backslash, other than \<open>\u\<close>.\<close>

definition simpleEscape :: "nat \<Rightarrow> nat option" where
  "simpleEscape e =
     (if e = 34 then Some 34 else if e = 92 then Some 92 else if e = 47 then Some 47
      else if e = 98 then Some 8 else if e = 102 then Some 12 else if e = 110 then Some 10
      else if e = 114 then Some 13 else if e = 116 then Some 9 else None)"

text \<open>The characters of a string after its opening quote, up to the closing one.\<close>

fun stringBody :: "jstring \<Rightarrow> jstring \<Rightarrow> (jstring \<times> jstring) option" where
  "stringBody [] acc = None"
| "stringBody (c # cs) acc =
     (if c = 34 then Some (rev acc, cs)
      else if c = 92 then
        (case cs of
           [] \<Rightarrow> None
         | e # r \<Rightarrow>
             (if e = 117 then
                (case r of
                   h1 # h2 # h3 # h4 # r' \<Rightarrow>
                     (case hex4 h1 h2 h3 h4 of
                        None \<Rightarrow> None
                      | Some u \<Rightarrow> stringBody r' (u # acc))
                 | _ \<Rightarrow> None)
              else
                (case simpleEscape e of
                   None \<Rightarrow> None
                 | Some u \<Rightarrow> stringBody r (u # acc))))
      else if c < 32 then None
      else stringBody cs (c # acc))"

definition lexFraction :: "jstring \<Rightarrow> (jstring \<times> jstring) option" where
  "lexFraction s =
     (case s of
        [] \<Rightarrow> Some ([], s)
      | c # r \<Rightarrow>
          (if c = 46 then
             (if takeWhile isDigit r = [] then None
              else Some (c # takeWhile isDigit r, dropWhile isDigit r))
           else Some ([], s)))"

definition lexExponent :: "jstring \<Rightarrow> (jstring \<times> jstring) option" where
  "lexExponent s =
     (case s of
        [] \<Rightarrow> Some ([], s)
      | c # r \<Rightarrow>
          (if c = 101 \<or> c = 69 then
             (let sign = (case r of [] \<Rightarrow> [] | g # _ \<Rightarrow> (if g = 43 \<or> g = 45 then [g] else []));
                  r' = drop (length sign) r
              in if takeWhile isDigit r' = [] then None
                 else Some (c # sign @ takeWhile isDigit r', dropWhile isDigit r'))
           else Some ([], s)))"

definition lexNumber :: "jstring \<Rightarrow> (jstring \<times> jstring) option" where
  "lexNumber s =
     (let sign = (case s of [] \<Rightarrow> [] | c # _ \<Rightarrow> (if c = 45 then [c] else []));
          s1 = drop (length sign) s;
          whole = takeWhile isDigit s1
      in if whole = [] \<or> (length whole > 1 \<and> hd whole = 48) then None
         else
           (case lexFraction (dropWhile isDigit s1) of
              None \<Rightarrow> None
            | Some (fraction, s2) \<Rightarrow>
                (case lexExponent s2 of
                   None \<Rightarrow> None
                 | Some (exponent, s3) \<Rightarrow> Some (sign @ whole @ fraction @ exponent, s3))))"

fun parseValue :: "nat \<Rightarrow> jstring \<Rightarrow> (json \<times> jstring) option"
  and parseElements :: "nat \<Rightarrow> jstring \<Rightarrow> json list \<Rightarrow> (json list \<times> jstring) option"
  and parseMembers ::
    "nat \<Rightarrow> jstring \<Rightarrow> (jstring \<times> json) list \<Rightarrow> ((jstring \<times> json) list \<times> jstring) option"
where
  "parseValue 0 s = None"
| "parseValue (Suc n) s =
     (case skipWs s of
        [] \<Rightarrow> None
      | c # cs \<Rightarrow>
          (if c = 123 then
             (case skipWs cs of
                [] \<Rightarrow> None
              | d # r \<Rightarrow>
                  (if d = 125 then Some (JObject [], r)
                   else (case parseMembers n cs [] of
                           None \<Rightarrow> None
                         | Some (members, r') \<Rightarrow> Some (JObject members, r'))))
           else if c = 91 then
             (case skipWs cs of
                [] \<Rightarrow> None
              | d # r \<Rightarrow>
                  (if d = 93 then Some (JArray [], r)
                   else (case parseElements n cs [] of
                           None \<Rightarrow> None
                         | Some (elements, r') \<Rightarrow> Some (JArray elements, r'))))
           else if c = 34 then
             (case stringBody cs [] of
                None \<Rightarrow> None
              | Some (text, r) \<Rightarrow> Some (JString text, r))
           else if startsWith (c # cs) [116, 114, 117, 101] then Some (JBool True, drop 4 (c # cs))
           else if startsWith (c # cs) [102, 97, 108, 115, 101] then Some (JBool False, drop 5 (c # cs))
           else if startsWith (c # cs) [110, 117, 108, 108] then Some (JNull, drop 4 (c # cs))
           else
             (case lexNumber (c # cs) of
                None \<Rightarrow> None
              | Some (text, r) \<Rightarrow> Some (JNumber text, r))))"
| "parseElements 0 s acc = None"
| "parseElements (Suc n) s acc =
     (case parseValue n s of
        None \<Rightarrow> None
      | Some (v, r) \<Rightarrow>
          (case skipWs r of
             [] \<Rightarrow> None
           | c # r' \<Rightarrow>
               (if c = 44 then parseElements n r' (acc @ [v])
                else if c = 93 then Some (acc @ [v], r')
                else None)))"
| "parseMembers 0 s acc = None"
| "parseMembers (Suc n) s acc =
     (case skipWs s of
        [] \<Rightarrow> None
      | c # cs \<Rightarrow>
          (if c = 34 then
             (case stringBody cs [] of
                None \<Rightarrow> None
              | Some (key, r) \<Rightarrow>
                  (case skipWs r of
                     [] \<Rightarrow> None
                   | d # r' \<Rightarrow>
                       (if d = 58 then
                          (case parseValue n r' of
                             None \<Rightarrow> None
                           | Some (v, r'') \<Rightarrow>
                               (case skipWs r'' of
                                  [] \<Rightarrow> None
                                | e # r3 \<Rightarrow>
                                    (if e = 44 then parseMembers n r3 (mapSet acc key v)
                                     else if e = 125 then Some (mapSet acc key v, r3)
                                     else None)))
                        else None)))
           else None))"



section \<open>The JSON recovery engine\<close>






























text \<open>A workspace, a tool on it that asks for approval and is granted it, and an
  empty disk, for the concrete instances below.\<close>

definition demoTool :: FileSystemTool where
  "demoTool = \<lparr>root = js ''/work/ws'', dryRun = False, confirm = Some (\<lambda>pending. True)\<rparr>"

definition emptyDisk :: filesystem where
  "emptyDisk = \<lparr>files = Map.empty, denied = (\<lambda>k. False)\<rparr>"




text \<open>A disk holding \<open>a.txt\<close>, an anchored replacement whose anchor is not in that
  file, an anchored replacement whose anchor is, and the creation of \<open>b.txt\<close>.\<close>

definition helloDisk :: filesystem where
  "helloDisk =
     \<lparr>files = [fileKey (js ''/work/ws/a.txt'') \<mapsto> js ''hello foo world''],
      denied = (\<lambda>k. False)\<rparr>"

definition anchored :: "jstring \<Rightarrow> jstring \<Rightarrow> ImplementationAction" where
  "anchored e repl =
     \<lparr>atype = modify_file, apath = js ''a.txt'', content = None, patch = None, patches = None,
      mode = Some replace,
      anchor = Some \<lparr>exact = Some e, regex = None, description = None\<rparr>,
      replacement = Some repl, snippet = None, ensure = None\<rparr>"














section \<open>The workspace guard\<close>

lemma startsWith_append: "startsWith (p @ s) p"
  by (induction p) auto

lemma startsWith_joinWith_head: "startsWith (joinWith sep (x # xs)) x"
  using startsWith_append [of x "[]"] by (cases xs) (auto simp: startsWith_append)

lemma commonPrefixLen_le: "commonPrefixLen xs ys \<le> length xs"
  by (induction xs ys rule: commonPrefixLen.induct) auto

lemma commonPrefixLen_full:
  "commonPrefixLen xs ys = length xs \<Longrightarrow> take (length xs) ys = xs"
  by (induction xs ys rule: commonPrefixLen.induct) (auto split: if_splits)

text \<open>When the root's segments are not a prefix of the target's, the relative path
  begins with a \<open>..\<close> segment.\<close>

lemma relative_escape:
  assumes "\<not> insideRoot r p"
  shows "startsWith (pathRelative r p) [46, 46]"
proof -
  let ?f = "absSegs r" and ?t = "absSegs p"
  let ?k = "commonPrefixLen ?f ?t"
  from assms have ne: "r \<noteq> p" by (auto simp: insideRoot_def)
  from assms have "?k \<noteq> length ?f"
    using commonPrefixLen_full [of ?f ?t] by (auto simp: insideRoot_def)
  with commonPrefixLen_le [of ?f ?t] have "?k < length ?f" by simp
  then obtain n where n: "length ?f - ?k = Suc n" by (cases "length ?f - ?k") auto
  show ?thesis using ne n
    by (simp add: pathRelative_def Let_def startsWith_joinWith_head
        del: joinWith.simps startsWith.simps)
qed





text \<open>
  Claim C1.  Whenever the normalised target is outside the workspace root (the
  segments of the root are not a prefix of the target's segments, so a sibling such
  as \<open>/work/ws2\<close> is outside \<open>/work/ws\<close>), \<open>resolve\<close> raises \<open>PathEscape\<close>, and a
  \<open>write\<close> to that target raises it too and leaves the disk exactly as it was.
\<close>

theorem resolve_rejects_escape:
  assumes "\<not> insideRoot (root tool) (resolveTarget tool targetPath)"
  shows "resolve tool targetPath = Inl (PathEscape targetPath)
       \<and> write_fs tool targetPath c fs = (Inl (PathEscape targetPath), fs)"
proof -
  have r: "resolve tool targetPath = Inl (PathEscape targetPath)"
    using relative_escape [OF assms] by (simp add: resolve_def Let_def)
  then show ?thesis by (simp add: write_fs_def)
qed

theorem resolve_rejects_escape_witness:
  "\<not> insideRoot (root demoTool) (resolveTarget demoTool (js ''../outside.txt''))
   \<and> \<not> insideRoot (root demoTool) (resolveTarget demoTool (js ''/work/ws2/a.txt''))
   \<and> resolve demoTool (js ''/work/ws2/a.txt'') = Inl (PathEscape (js ''/work/ws2/a.txt''))
   \<and> resolve demoTool (js ''../outside.txt'') = Inl (PathEscape (js ''../outside.txt''))
   \<and> write_fs demoTool (js ''../outside.txt'') (js ''x'') emptyDisk
      = (Inl (PathEscape (js ''../outside.txt'')), emptyDisk)"
proof -
  have h: "\<not> insideRoot (root demoTool) (resolveTarget demoTool (js ''../outside.txt''))"
    by code_simp
  have h2: "\<not> insideRoot (root demoTool) (resolveTarget demoTool (js ''/work/ws2/a.txt''))"
    by code_simp
  show ?thesis
    using h h2 resolve_rejects_escape [OF h, of "js ''x''" emptyDisk]
      resolve_rejects_escape [OF h2, of "js ''x''" emptyDisk]
    by simp
qed


section \<open>From a resolved path to its relative form and back\<close>
























section \<open>Writing and deleting\<close>




text \<open>For a path the guard resolves and at which no file exists, \<open>delete\<close> returns an
  applied mutation without \<open>before\<close>, and rolling that mutation back changes nothing.\<close>

lemma delete_missing_resolved:
  assumes "resolve tool p = Inr r" and "files fs (fileKey r) = None"
    and "\<not> dryRun tool" and "\<And>pm. \<not> declined tool pm" and "\<not> denied fs (fileKey r)"
  shows "\<exists>m fs'. delete tool p fs = (Inr m, fs') \<and> action m = Delete \<and> applied m
           \<and> before m = None \<and> rollbackMutations (root tool) [m] fs' = (fs', [])"
  using assms
  by (simp add: delete_def Let_def outcome_def rollbackMutations_def replay_def ordered_def
      latestByPath_def rollbackOne_def rollbackBody_def)

text \<open>
  Claim C10 at the path \<open>..a.txt\<close>: the file would lie inside the workspace
  \<open>/work/ws\<close> and does not exist, yet \<open>delete\<close> raises \<open>PathEscape\<close>, because the
  guard tests the text of the relative path for the two leading characters \<open>..\<close>.
\<close>

theorem delete_dotdot_name_rejected:
  "insideRoot (root demoTool) (resolveTarget demoTool (js ''..a.txt''))
   \<and> files emptyDisk (fileKey (resolveTarget demoTool (js ''..a.txt''))) = None
   \<and> delete demoTool (js ''..a.txt'') emptyDisk = (Inl (PathEscape (js ''..a.txt'')), emptyDisk)"
proof -
  have a: "insideRoot (root demoTool) (resolveTarget demoTool (js ''..a.txt''))"
    by code_simp
  have b: "resolve demoTool (js ''..a.txt'') = Inl (PathEscape (js ''..a.txt''))"
    by code_simp
  show ?thesis using a b by (simp add: delete_def emptyDisk_def)
qed


section \<open>Rollback\<close>





































section \<open>Anchors\<close>

lemma startsWith_take: "startsWith s p \<longleftrightarrow> take (length p) s = p"
  by (induction s p rule: startsWith.induct) auto

lemma indexOfFrom_None:
  "indexOfFrom s p n = None \<Longrightarrow> j \<le> length s \<Longrightarrow> \<not> occursAt s p j"
proof (induction s arbitrary: n j)
  case Nil
  then show ?case by (cases p) (auto simp: occursAt_def split: if_splits)
next
  case (Cons c cs)
  from Cons.prems(1) have ns: "\<not> startsWith (c # cs) p" and r: "indexOfFrom cs p (Suc n) = None"
    by (auto split: if_splits)
  show ?case
  proof (cases j)
    case 0 with ns show ?thesis by (simp add: occursAt_def)
  next
    case (Suc j')
    with Cons.prems(2) have "j' \<le> length cs" by simp
    from Cons.IH [OF r this] Suc show ?thesis by (simp add: occursAt_def)
  qed
qed

lemma indexOfFrom_Some:
  "indexOfFrom s p n = Some k \<Longrightarrow> n \<le> k \<and> k - n \<le> length s \<and> occursAt s p (k - n)"
proof (induction s arbitrary: n)
  case Nil
  then show ?case by (auto simp: occursAt_def split: if_splits)
next
  case (Cons c cs)
  show ?case
  proof (cases "startsWith (c # cs) p")
    case True
    with Cons.prems show ?thesis by (simp add: occursAt_def)
  next
    case False
    with Cons.prems have "indexOfFrom cs p (Suc n) = Some k" by simp
    from Cons.IH [OF this] have "Suc n \<le> k" "k - Suc n \<le> length cs" "occursAt cs p (k - Suc n)"
      by auto
    moreover from \<open>Suc n \<le> k\<close> have "k - n = Suc (k - Suc n)" by simp
    ultimately show ?thesis by (simp add: occursAt_def)
  qed
qed

lemma indexOf_unique:
  assumes "occurrences s e = [i]"
  shows "indexOf s e = Some i"
proof (cases "indexOf s e")
  case None
  from assms have "i \<in> set (occurrences s e)" by simp
  then have "i \<le> length s" "occursAt s e i" by (auto simp: occurrences_def simp del: upt_Suc)
  with indexOfFrom_None [of s e 0 i] None show ?thesis by (simp add: indexOf_def)
next
  case (Some k)
  from indexOfFrom_Some [of s e 0 k] Some have "k \<le> length s" "occursAt s e k"
    by (auto simp: indexOf_def)
  then have "k \<in> set (occurrences s e)" by (auto simp: occurrences_def simp del: upt_Suc)
  with assms Some show ?thesis by simp
qed

lemma locateAnchor_exact_once:
  assumes "exact anc = Some e" and "e \<noteq> []" and "occurrences original e = [i]"
    and "\<not> truthy (regex anc) \<or> rxSpan rx (the (regex anc)) (js ''m'') original = None"
  shows "locateAnchor rx original anc = Some (i, i + length e)"
  using assms indexOf_unique [OF assms(3)]
  by (auto simp: locateAnchor_def truthy_def Let_def)

lemma spliceEdit_replace:
  "replacement a = Some repl \<Longrightarrow>
   spliceEdit replace original (s, t) a = Inr (take s original @ repl @ drop t original)"
  by (simp add: spliceEdit_def slice_def sliceFrom_def orEmpty_def)

lemma no_span_iff: "(\<forall>a b. x \<noteq> Some (a, b)) \<longleftrightarrow> x = None"
  by (cases x) auto



section \<open>The loop over the actions\<close>










lemma anchored_replace_modification:
  assumes "locateAnchor rx original anc = Some (s, t)"
    and "anchor a = Some anc" and "effectiveMode a = replace" and "replacement a = Some repl"
    and "read tool (apath a) fs = Inr raw"
    and "original = (if hasCRLF raw then crlfToLf raw else raw)"
    and "truthy (ensure a) \<longrightarrow> includesStr (take s original @ repl @ drop t original) (the (ensure a))"
  shows "applyAnchoredModification tool rx a fs =
           write_fs tool (apath a)
             (if hasCRLF raw then lfToCrlf (take s original @ repl @ drop t original)
              else take s original @ repl @ drop t original) fs"
  using assms
  by (auto simp: applyAnchoredModification_def Let_def spliceEdit_replace)

lemma demo_read_a: "read demoTool (js ''a.txt'') helloDisk = Inr (js ''hello foo world'')"
  by code_simp

lemma hello_no_crlf: "\<not> hasCRLF (js ''hello foo world'')"
  by code_simp


lemma anchored_fields:
  "anchor (anchored e repl) = Some \<lparr>exact = Some e, regex = None, description = None\<rparr>"
  "effectiveMode (anchored e repl) = replace"
  "replacement (anchored e repl) = Some repl"
  "apath (anchored e repl) = js ''a.txt''"
  "atype (anchored e repl) = modify_file"
  "hasAnchorContent (anchored e repl)"
  "\<not> hasPatch (anchored e repl)"
  "ensure (anchored e repl) = None"
  by (simp_all add: anchored_def effectiveMode_def hasAnchorContent_def hasPatch_def)







section \<open>Locating and replacing an anchor\<close>

text \<open>
  Claim C4, as stated, for every anchor whose \<open>exact\<close> text occurs exactly once: in
  \<open>ab\<close> the text \<open>a\<close> occurs once, at 0, but an anchor that also carries the
  pattern \<open>b\<close> is located at the span of the pattern, from 1 to 2, because the
  pattern is tried first.
\<close>

theorem exact_once_regex_counterexample:
  "occurrences (js ''ab'') (js ''a'') = [0]
   \<and> locateAnchor literalEngine (js ''ab'')
        \<lparr>exact = Some (js ''a''), regex = Some (js ''b''), description = None\<rparr> = Some (1, 2)"
  by code_simp

text \<open>
  Claim C4, amended.  For every content and every anchor whose \<open>exact\<close> text is not
  empty and occurs verbatim exactly once in the content, at \<open>i\<close>, and whose pattern,
  if it has one, finds nothing, \<open>locateAnchor\<close> returns the span from \<open>i\<close> to
  \<open>i + length e\<close>; the mode \<open>replace\<close> produces the content before \<open>i\<close>, the
  replacement, and the content from the end of the span on; and
  \<open>applyAnchoredModification\<close> writes exactly that text (computed on the content
  with CR LF read as LF, and converted back when the file had CR LF), provided the
  post-condition, if any, is in it.
\<close>

theorem exact_once_replace:
  assumes "exact anc = Some e" and "e \<noteq> []" and "occurrences original e = [i]"
    and "\<not> foundByRegex rx original anc"
  shows "locateAnchor rx original anc = Some (i, i + length e)
       \<and> (replacement a = Some repl \<longrightarrow>
            spliceEdit replace original (i, i + length e) a
              = Inr (take i original @ repl @ drop (i + length e) original))
       \<and> (anchor a = Some anc \<and> effectiveMode a = replace \<and> replacement a = Some repl
          \<and> read tool (apath a) fs = Inr raw
          \<and> original = (if hasCRLF raw then crlfToLf raw else raw)
          \<and> (truthy (ensure a) \<longrightarrow>
               includesStr (take i original @ repl @ drop (i + length e) original) (the (ensure a)))
          \<longrightarrow> applyAnchoredModification tool rx a fs
                = write_fs tool (apath a)
                    (if hasCRLF raw
                     then lfToCrlf (take i original @ repl @ drop (i + length e) original)
                     else take i original @ repl @ drop (i + length e) original) fs)"
proof -
  have loc: "locateAnchor rx original anc = Some (i, i + length e)"
    using assms by (intro locateAnchor_exact_once) (auto simp: foundByRegex_def no_span_iff)
  have sp: "replacement a = Some repl \<longrightarrow>
            spliceEdit replace original (i, i + length e) a
              = Inr (take i original @ repl @ drop (i + length e) original)"
    by (simp add: spliceEdit_replace)
  show ?thesis
    using loc sp anchored_replace_modification [OF loc, of a repl tool fs raw]
    by blast
qed

lemma foo_once: "occurrences (js ''hello foo world'') (js ''foo'') = [6]"
  by code_simp

lemma foo_nonempty: "js ''foo'' \<noteq> []"
  by code_simp

lemma foo_splice:
  "take 6 (js ''hello foo world'') @ js ''bar'' @ drop (6 + length (js ''foo'')) (js ''hello foo world'')
     = js ''hello bar world''"
  by code_simp

text \<open>Replacing \<open>foo\<close> by \<open>bar\<close> in \<open>hello foo world\<close>.\<close>

theorem exact_once_replace_witness:
  "occurrences (js ''hello foo world'') (js ''foo'') = [6]
   \<and> read demoTool (js ''a.txt'') helloDisk = Inr (js ''hello foo world'')
   \<and> locateAnchor literalEngine (js ''hello foo world'')
        \<lparr>exact = Some (js ''foo''), regex = None, description = None\<rparr> = Some (6, 6 + length (js ''foo''))
   \<and> applyAnchoredModification demoTool literalEngine (anchored (js ''foo'') (js ''bar'')) helloDisk
       = write_fs demoTool (js ''a.txt'') (js ''hello bar world'') helloDisk"
proof -
  let ?anc = "\<lparr>exact = Some (js ''foo''), regex = None, description = None\<rparr>"
  have r: "\<not> foundByRegex literalEngine (js ''hello foo world'') ?anc"
    by (simp add: foundByRegex_def truthy_def)
  have x: "exact ?anc = Some (js ''foo'')" by simp
  show ?thesis
    using exact_once_replace [OF x foo_nonempty foo_once r,
        of "anchored (js ''foo'') (js ''bar'')" "js ''bar''" demoTool helloDisk "js ''hello foo world''"]
      foo_once demo_read_a hello_no_crlf foo_splice
    by (simp add: anchored_fields truthy_def)
qed


section \<open>An anchor that is not in the file\<close>




section \<open>Manual hunk splicing\<close>















section \<open>The JSON recovery engine\<close>



































end
